theory Spec2Isabelle
  imports Main "HOL-Library.Sublist"
begin

section \<open>The extension's webpack configuration function\<close>

text \<open>
  The program is \<^verbatim>\<open>web/extension/webpack.config.js\<close>: one exported function
  \<^verbatim>\<open>(env, argv) => { ... }\<close> that selects a build mode, logs it and returns a
  configuration object. The function is embedded with its JavaScript semantics made explicit:
  the values it can be handed, the truthiness test and the property read of line 9, the string
  conversion of the template literal of line 13, the console as a state, and
  \<^verbatim>\<open>path.resolve\<close> of Node.js on the paths of lines 17, 18, 21 and 30.
\<close>

subsection \<open>JavaScript values\<close>

text \<open>
  The values \<^verbatim>\<open>env\<close> and \<^verbatim>\<open>argv\<close> range over: the primitives, and ordinary
  objects (prototype \<^verbatim>\<open>Object.prototype\<close>) with own string-keyed data properties, as an
  association list in which the first binding of a key is the property's value. Functions,
  arrays, accessors and proxies are outside the model.

  A Number is an IEEE double; the program observes one only through its truthiness and its
  string conversion, so \<open>JNumber r\<close> stands for the number whose \<^verbatim>\<open>Number::toString\<close>
  is \<open>r\<close> (\<^verbatim>\<open>+0\<close> and \<^verbatim>\<open>-0\<close> share \<open>''0''\<close>). A Symbol carries its description.
\<close>

datatype jsval =
    JUndefined
  | JNull
  | JBoolean bool
  | JNumber string
  | JBigInt int
  | JString string
  | JSymbol string
  | JObject "(string \<times> jsval) list"

datatype js_error = TypeError

text \<open>\<^verbatim>\<open>ToBoolean\<close>: the test an \<^verbatim>\<open>if\<close> and the operator \<^verbatim>\<open>&&\<close> apply.\<close>

fun to_boolean :: "jsval \<Rightarrow> bool" where
  "to_boolean JUndefined = False"
| "to_boolean JNull = False"
| "to_boolean (JBoolean b) = b"
| "to_boolean (JNumber r) = (r \<noteq> ''0'' \<and> r \<noteq> ''NaN'')"
| "to_boolean (JBigInt i) = (i \<noteq> 0)"
| "to_boolean (JString s) = (s \<noteq> [])"
| "to_boolean (JSymbol d) = True"
| "to_boolean (JObject ps) = True"

text \<open>
  The member expression \<^verbatim>\<open>argv.mode\<close>: a \<^verbatim>\<open>TypeError\<close> on \<^verbatim>\<open>undefined\<close> and
  \<^verbatim>\<open>null\<close>; the own property of an object, or \<^verbatim>\<open>undefined\<close> when there is none
  (the prototypes have no \<^verbatim>\<open>mode\<close>); \<^verbatim>\<open>undefined\<close> on every other primitive.
\<close>

fun get_mode :: "jsval \<Rightarrow> js_error + jsval" where
  "get_mode JUndefined = Inl TypeError"
| "get_mode JNull = Inl TypeError"
| "get_mode (JObject ps) =
     Inr (case map_of ps ''mode'' of None \<Rightarrow> JUndefined | Some v \<Rightarrow> v)"
| "get_mode v = Inr JUndefined"

text \<open>The decimal digits of a BigInt.\<close>

fun nat_digits :: "nat \<Rightarrow> string" where
  "nat_digits n =
     (if n < 10 then [''0123456789'' ! n]
      else nat_digits (n div 10) @ [''0123456789'' ! (n mod 10)])"

declare nat_digits.simps [simp del]

definition bigint_to_string :: "int \<Rightarrow> string" where
  "bigint_to_string i =
     (if i < 0 then CHR ''-'' # nat_digits (nat (- i)) else nat_digits (nat i))"

text \<open>
  \<^verbatim>\<open>ToString\<close>, which a template literal applies to each substitution. A Symbol raises a
  \<^verbatim>\<open>TypeError\<close>. An object is converted by \<^verbatim>\<open>OrdinaryToPrimitive\<close> with hint string:
  \<^verbatim>\<open>Object.prototype.toString\<close> gives \<^verbatim>\<open>[object Object]\<close>, unless the object has an
  own property \<^verbatim>\<open>toString\<close>; that one is not callable (the model has no function values),
  \<^verbatim>\<open>valueOf\<close> yields no primitive either, and the conversion raises a \<^verbatim>\<open>TypeError\<close>.
\<close>

fun to_string :: "jsval \<Rightarrow> js_error + string" where
  "to_string JUndefined = Inr ''undefined''"
| "to_string JNull = Inr ''null''"
| "to_string (JBoolean b) = Inr (if b then ''true'' else ''false'')"
| "to_string (JNumber r) = Inr r"
| "to_string (JBigInt i) = Inr (bigint_to_string i)"
| "to_string (JString s) = Inr s"
| "to_string (JSymbol d) = Inl TypeError"
| "to_string (JObject ps) =
     (if map_of ps ''toString'' = None then Inr ''[object Object]'' else Inl TypeError)"

subsection \<open>The Node.js runtime: \<^verbatim>\<open>path.resolve\<close> and the console\<close>

text \<open>
  \<^verbatim>\<open>path.resolve\<close> on POSIX, as Node.js documents and implements it. The arguments are
  read from the right, each non-empty one put in front of the path built so far with a
  \<^verbatim>\<open>/\<close> between, until one is absolute; the current working directory is read only if
  none is. The path is then normalised segment by segment: empty segments and \<^verbatim>\<open>.\<close> are
  dropped, \<^verbatim>\<open>..\<close> removes the segment before it (and is kept only in a relative path that
  has none to remove).
\<close>

fun is_absolute :: "string \<Rightarrow> bool" where
  "is_absolute [] = False"
| "is_absolute (c # cs) = (c = CHR ''/'')"

fun resolve_loop :: "string list \<Rightarrow> string \<Rightarrow> string \<times> bool" where
  "resolve_loop [] resolvedPath = (resolvedPath, False)"
| "resolve_loop (p # ps) resolvedPath =
     (if p = [] then resolve_loop ps resolvedPath
      else if is_absolute p then (p @ ''/'' @ resolvedPath, True)
      else resolve_loop ps (p @ ''/'' @ resolvedPath))"

fun segments :: "string \<Rightarrow> string list" where
  "segments [] = [[]]"
| "segments (c # cs) =
     (if c = CHR ''/'' then [] # segments cs
      else (case segments cs of [] \<Rightarrow> [[c]] | s # ss \<Rightarrow> (c # s) # ss))"

definition normalize_step :: "bool \<Rightarrow> string list \<Rightarrow> string \<Rightarrow> string list" where
  "normalize_step allowAboveRoot res seg =
     (if seg = [] \<or> seg = ''.'' then res
      else if seg = ''..'' then
        (if res \<noteq> [] \<and> last res \<noteq> ''..'' then butlast res
         else if allowAboveRoot then res @ [''..'']
         else res)
      else res @ [seg])"

fun join_slash :: "string list \<Rightarrow> string" where
  "join_slash [] = []"
| "join_slash [s] = s"
| "join_slash (s # t # ss) = s @ ''/'' @ join_slash (t # ss)"

definition normalizeString :: "string \<Rightarrow> bool \<Rightarrow> string" where
  "normalizeString p allowAboveRoot =
     join_slash (foldl (normalize_step allowAboveRoot) [] (segments p))"

definition path_resolve :: "string \<Rightarrow> string list \<Rightarrow> string" where
  "path_resolve cwd args =
     (case resolve_loop (rev args @ [cwd]) [] of
        (resolvedPath, resolvedAbsolute) \<Rightarrow>
          (let n = normalizeString resolvedPath (\<not> resolvedAbsolute) in
           if resolvedAbsolute then CHR ''/'' # n
           else if n \<noteq> [] then n else ''.''))"

text \<open>The console is the list of the messages logged so far, oldest first.\<close>

definition console_log :: "string \<Rightarrow> string list \<Rightarrow> string list" where
  "console_log msg console = console @ [msg]"

subsection \<open>The configuration object\<close>

record output_options =
  path :: string
  filename :: string
  chunkFilename :: string
  jsonpFunction :: string

record wasm_pack_options =
  crateDirectory :: string
  outName :: string
  forceMode :: jsval

datatype plugin =
    CleanWebpackPlugin
  | WasmPackPlugin wasm_pack_options

record configuration =
  entry :: "(string \<times> string) list"
  output_desc :: output_options
  mode :: jsval
  plugins :: "plugin list"

subsection \<open>The exported function\<close>

text \<open>
  Lines 8 to 11: \<^verbatim>\<open>let mode = "production"; if (argv && argv.mode) { mode = argv.mode; }\<close>.
  The operator \<^verbatim>\<open>&&\<close> yields \<^verbatim>\<open>argv\<close> itself when that is falsy and reads
  \<^verbatim>\<open>argv.mode\<close> only otherwise; the assignment reads the property a second time.
\<close>

definition select_mode :: "jsval \<Rightarrow> js_error + jsval" where
  "select_mode argv =
     (let mode = JString ''production'' in
      case (if to_boolean argv then get_mode argv else Inr argv) of
        Inl e \<Rightarrow> Inl e
      | Inr c \<Rightarrow> if to_boolean c then get_mode argv else Inr mode)"

text \<open>Line 13: the template literal \<^verbatim>\<open>`Building ${mode}...`\<close>.\<close>

definition building_message :: "jsval \<Rightarrow> js_error + string" where
  "building_message m =
     (case to_string m of
        Inl e \<Rightarrow> Inl e
      | Inr s \<Rightarrow> Inr (''Building '' @ s @ ''...''))"

text \<open>
  The function, with what it reads beside its two parameters made explicit: the module's
  \<^verbatim>\<open>__dirname\<close>, the process's working directory (which \<^verbatim>\<open>path.resolve\<close> may
  consult) and the console, which is returned updated. An exception leaves the function at
  once: the result is \<open>Inl\<close> the error, and the console is as it was. The local variable
  \<^verbatim>\<open>mode\<close> is \<open>m\<close> here, \<open>mode\<close> being the field of the configuration.
\<close>

definition module_exports ::
  "string \<Rightarrow> string \<Rightarrow> jsval \<Rightarrow> jsval \<Rightarrow> string list
     \<Rightarrow> (js_error + configuration) \<times> string list" where
  "module_exports dirname cwd env argv console =
     (case select_mode argv of
        Inl e \<Rightarrow> (Inl e, console)
      | Inr m \<Rightarrow>
          (case building_message m of
             Inl e \<Rightarrow> (Inl e, console)
           | Inr msg \<Rightarrow>
               (Inr \<lparr> entry =
                       [(''ruffle'', path_resolve cwd [dirname, ''js/index.js'']),
                        (''popup'', path_resolve cwd [dirname, ''js/popup.js''])],
                     output_desc =
                       \<lparr> path = path_resolve cwd [dirname, ''build/dist''],
                         filename = ''[name].js'',
                         chunkFilename = ''core.ruffle.js'',
                         jsonpFunction = ''RufflePlayerExtensionLoader'' \<rparr>,
                     mode = m,
                     plugins =
                       [CleanWebpackPlugin,
                        WasmPackPlugin
                          \<lparr> crateDirectory = path_resolve cwd [dirname, ''..''],
                            outName = ''ruffle'',
                            forceMode = m \<rparr>] \<rparr>,
                console_log msg console)))"

section \<open>Properties\<close>

subsection \<open>Paths resolved under an absolute directory\<close>

lemma segments_not_Nil: "segments s \<noteq> []"
  by (induction s) (auto split: list.splits)

lemma segments_append_slash: "segments (a @ CHR ''/'' # b) = segments a @ segments b"
proof (induction a)
  case Nil
  show ?case by simp
next
  case (Cons c a)
  then show ?case
    using segments_not_Nil [of a] by (cases "segments a") auto
qed

lemma normalize_step_nonempty:
  "[] \<notin> set res \<Longrightarrow> [] \<notin> set (normalize_step up res seg)"
  by (auto simp: normalize_step_def dest: in_set_butlastD)

lemma foldl_normalize_nonempty:
  "[] \<notin> set res \<Longrightarrow> [] \<notin> set (foldl (normalize_step up) res segs)"
  by (induction segs arbitrary: res) (simp_all add: normalize_step_nonempty)

lemma join_slash_eq_Nil: "[] \<notin> set res \<Longrightarrow> join_slash res = [] \<longleftrightarrow> res = []"
  by (induction res rule: join_slash.induct) auto

lemma join_slash_snoc2:
  "join_slash (res @ [a, b]) =
     (if res = [] then a @ ''/'' @ b else join_slash res @ ''/'' @ a @ ''/'' @ b)"
  by (induction res rule: join_slash.induct) auto

lemma resolve_loop_in_dir:
  "is_absolute d \<Longrightarrow> rel \<noteq> [] \<Longrightarrow> \<not> is_absolute rel \<Longrightarrow>
   resolve_loop [rel, d, cwd] [] = (d @ ''/'' @ rel @ ''/'', True)"
  by (cases d) auto

text \<open>With an absolute first argument the working directory is never read.\<close>

lemma path_resolve_cwd_irrelevant:
  "is_absolute d \<Longrightarrow> path_resolve cwd [d, rel] = path_resolve cwd' [d, rel]"
  by (cases d) (simp_all add: path_resolve_def)

lemma path_resolve_dir:
  "is_absolute d \<Longrightarrow>
   path_resolve cwd [d] = CHR ''/'' # join_slash (foldl (normalize_step False) [] (segments d))"
  by (cases d)
    (simp_all add: path_resolve_def normalizeString_def segments_append_slash normalize_step_def)

text \<open>
  A relative path of two plain segments, resolved against an absolute directory, is the
  normalised directory followed by the two segments.
\<close>

lemma path_resolve_in_dir2:
  assumes "is_absolute d"
    and "segments rel = [a, b]"
    and "a \<noteq> []" "a \<noteq> ''.''" "a \<noteq> ''..''" "b \<noteq> []" "b \<noteq> ''.''" "b \<noteq> ''..''"
    and "rel \<noteq> []" "\<not> is_absolute rel"
  shows "path_resolve cwd [d, rel] =
     (if path_resolve cwd' [d] = ''/'' then ''/'' @ a @ ''/'' @ b
      else path_resolve cwd' [d] @ ''/'' @ a @ ''/'' @ b)"
proof -
  define res where "res = foldl (normalize_step False) [] (segments d)"
  have seg: "segments (d @ ''/'' @ rel @ ''/'') = segments d @ [a, b, []]"
    using assms(2) by (simp add: segments_append_slash)
  have "foldl (normalize_step False) [] (segments d @ [a, b, []]) = res @ [a, b]"
    using assms(3-8) by (simp add: res_def normalize_step_def)
  then have 1: "path_resolve cwd [d, rel] = CHR ''/'' # join_slash (res @ [a, b])"
    using resolve_loop_in_dir [OF assms(1,9,10), of cwd] seg
    by (simp add: path_resolve_def normalizeString_def del: resolve_loop.simps)
  have 2: "path_resolve cwd' [d] = CHR ''/'' # join_slash res"
    using path_resolve_dir [OF assms(1)] by (simp add: res_def)
  have "[] \<notin> set res"
    by (simp add: res_def foldl_normalize_nonempty)
  then have 3: "join_slash res = [] \<longleftrightarrow> res = []"
    by (rule join_slash_eq_Nil)
  show ?thesis
    unfolding 1 2 using 3 by (simp add: join_slash_snoc2)
qed

lemma resolve_index_js:
  "is_absolute d \<Longrightarrow> path_resolve cwd [d, ''js/index.js''] =
     (if path_resolve cwd' [d] = ''/'' then ''/js/index.js''
      else path_resolve cwd' [d] @ ''/js/index.js'')"
  using path_resolve_in_dir2 [of d "''js/index.js''" "''js''" "''index.js''" cwd cwd'] by simp

lemma resolve_popup_js:
  "is_absolute d \<Longrightarrow> path_resolve cwd [d, ''js/popup.js''] =
     (if path_resolve cwd' [d] = ''/'' then ''/js/popup.js''
      else path_resolve cwd' [d] @ ''/js/popup.js'')"
  using path_resolve_in_dir2 [of d "''js/popup.js''" "''js''" "''popup.js''" cwd cwd'] by simp

lemma resolve_build_dist:
  "is_absolute d \<Longrightarrow> path_resolve cwd [d, ''build/dist''] =
     (if path_resolve cwd' [d] = ''/'' then ''/build/dist''
      else path_resolve cwd' [d] @ ''/build/dist'')"
  using path_resolve_in_dir2 [of d "''build/dist''" "''build''" "''dist''" cwd cwd'] by simp

lemma path_resolve_dir_absolute: "is_absolute d \<Longrightarrow> is_absolute (path_resolve cwd [d])"
  by (simp add: path_resolve_dir)

subsection \<open>The selected mode\<close>

text \<open>
  The guard \<^verbatim>\<open>argv &&\<close> keeps the property read from \<^verbatim>\<open>undefined\<close> and
  \<^verbatim>\<open>null\<close>, so selecting the mode never raises: the mode is \<^verbatim>\<open>argv.mode\<close> when
  that is truthy, and \<^verbatim>\<open>"production"\<close> otherwise.
\<close>

lemma select_mode_cases:
  "select_mode argv =
     Inr (case argv of
            JObject ps \<Rightarrow>
              (case map_of ps ''mode'' of
                 None \<Rightarrow> JString ''production''
               | Some v \<Rightarrow> if to_boolean v then v else JString ''production'')
          | _ \<Rightarrow> JString ''production'')"
  by (cases argv) (simp_all add: select_mode_def split: option.splits)

text \<open>What an invocation that returns has computed.\<close>

lemma module_exports_returns:
  assumes "fst (module_exports dirname cwd env argv console) = Inr cfg"
  obtains m s where "select_mode argv = Inr m" and "to_string m = Inr s"
    and "cfg = \<lparr> entry =
                   [(''ruffle'', path_resolve cwd [dirname, ''js/index.js'']),
                    (''popup'', path_resolve cwd [dirname, ''js/popup.js''])],
                 output_desc =
                   \<lparr> path = path_resolve cwd [dirname, ''build/dist''],
                     filename = ''[name].js'',
                     chunkFilename = ''core.ruffle.js'',
                     jsonpFunction = ''RufflePlayerExtensionLoader'' \<rparr>,
                 mode = m,
                 plugins =
                   [CleanWebpackPlugin,
                    WasmPackPlugin
                      \<lparr> crateDirectory = path_resolve cwd [dirname, ''..''],
                        outName = ''ruffle'',
                        forceMode = m \<rparr>] \<rparr>"
    and "snd (module_exports dirname cwd env argv console) =
           console @ [''Building '' @ s @ ''...'']"
  using assms
  by (auto simp: module_exports_def building_message_def console_log_def split: sum.splits)

text \<open>A run on concrete inputs, for reference.\<close>

lemma development_run:
  "module_exports ''/ruffle/web/extension'' ''/tmp'' JUndefined
       (JObject [(''mode'', JString ''development'')]) [] =
     (Inr \<lparr> entry = [(''ruffle'', ''/ruffle/web/extension/js/index.js''),
                     (''popup'', ''/ruffle/web/extension/js/popup.js'')],
            output_desc = \<lparr> path = ''/ruffle/web/extension/build/dist'',
                            filename = ''[name].js'',
                            chunkFilename = ''core.ruffle.js'',
                            jsonpFunction = ''RufflePlayerExtensionLoader'' \<rparr>,
            mode = JString ''development'',
            plugins = [CleanWebpackPlugin,
                       WasmPackPlugin \<lparr> crateDirectory = ''/ruffle/web'',
                                        outName = ''ruffle'',
                                        forceMode = JString ''development'' \<rparr>] \<rparr>,
      [''Building development...''])"
  by (simp add: module_exports_def select_mode_def building_message_def console_log_def
      path_resolve_def normalizeString_def normalize_step_def)

subsection \<open>Mode selection\<close>

text \<open>
  C1. Whenever \<^verbatim>\<open>argv.mode\<close> is a non-empty string, the function returns a configuration
  whose \<open>mode\<close> field is that very string.
\<close>

theorem mode_is_given_string:
  assumes "get_mode argv = Inr (JString s)" and "s \<noteq> []"
  shows "\<exists>cfg. fst (module_exports dirname cwd env argv console) = Inr cfg \<and>
      mode cfg = JString s"
proof -
  have "to_boolean argv"
    using assms(1) by (cases argv) simp_all
  then have "select_mode argv = Inr (JString s)"
    using assms by (simp add: select_mode_def)
  then show ?thesis
    by (simp add: module_exports_def building_message_def)
qed

theorem mode_is_given_string_witness:
  "get_mode (JObject [(''mode'', JString ''none'')]) = Inr (JString ''none'') \<and>
   ''none'' \<noteq> [] \<and>
   (\<exists>cfg. fst (module_exports ''/ruffle/web/extension'' ''/tmp'' (JObject [])
              (JObject [(''mode'', JString ''none'')]) []) = Inr cfg \<and>
          mode cfg = JString ''none'')"
  using mode_is_given_string [of "JObject [(''mode'', JString ''none'')]" "''none''"
      "''/ruffle/web/extension''" "''/tmp''" "JObject []" "[]"]
  by simp

text \<open>
  C2. When \<^verbatim>\<open>argv\<close> is \<^verbatim>\<open>undefined\<close> or \<^verbatim>\<open>null\<close>, or \<^verbatim>\<open>argv.mode\<close> is
  absent (reads as \<^verbatim>\<open>undefined\<close>) or the empty string, the function returns a
  configuration whose \<open>mode\<close> field is \<^verbatim>\<open>"production"\<close>.
\<close>

theorem mode_defaults_to_production:
  assumes "argv = JUndefined \<or> argv = JNull \<or> get_mode argv = Inr JUndefined
      \<or> get_mode argv = Inr (JString [])"
  shows "\<exists>cfg. fst (module_exports dirname cwd env argv console) = Inr cfg \<and>
      mode cfg = JString ''production''"
proof -
  have "select_mode argv = Inr (JString ''production'')"
    using assms by (auto simp: select_mode_def)
  then show ?thesis
    by (simp add: module_exports_def building_message_def)
qed

theorem mode_defaults_to_production_witness:
  "(\<exists>cfg. fst (module_exports ''/ruffle/web/extension'' ''/tmp'' JUndefined JUndefined [])
        = Inr cfg \<and> mode cfg = JString ''production'') \<and>
   (\<exists>cfg. fst (module_exports ''/ruffle/web/extension'' ''/tmp'' JUndefined JNull [])
        = Inr cfg \<and> mode cfg = JString ''production'') \<and>
   get_mode (JObject [(''watch'', JBoolean True)]) = Inr JUndefined \<and>
   (\<exists>cfg. fst (module_exports ''/ruffle/web/extension'' ''/tmp'' JUndefined
        (JObject [(''watch'', JBoolean True)]) []) = Inr cfg \<and>
      mode cfg = JString ''production'') \<and>
   get_mode (JObject [(''mode'', JString [])]) = Inr (JString []) \<and>
   (\<exists>cfg. fst (module_exports ''/ruffle/web/extension'' ''/tmp'' JUndefined
        (JObject [(''mode'', JString [])]) []) = Inr cfg \<and>
      mode cfg = JString ''production'')"
  using
    mode_defaults_to_production [of JUndefined "''/ruffle/web/extension''" "''/tmp''"
      JUndefined "[]"]
    mode_defaults_to_production [of JNull "''/ruffle/web/extension''" "''/tmp''"
      JUndefined "[]"]
    mode_defaults_to_production [of "JObject [(''watch'', JBoolean True)]"
      "''/ruffle/web/extension''" "''/tmp''" JUndefined "[]"]
    mode_defaults_to_production [of "JObject [(''mode'', JString [])]"
      "''/ruffle/web/extension''" "''/tmp''" JUndefined "[]"]
  by simp

subsection \<open>The plugins\<close>

text \<open>
  C3. The plugins list of a returned configuration has exactly two elements, in this order:
  the \<^verbatim>\<open>CleanWebpackPlugin\<close> activation, then the \<^verbatim>\<open>WasmPackPlugin\<close> activation,
  whose \<^verbatim>\<open>forceMode\<close> is the configuration's own \<open>mode\<close> field.
\<close>

theorem plugins_clean_then_wasm_pack:
  assumes "fst (module_exports dirname cwd env argv console) = Inr cfg"
  shows "plugins cfg =
     [CleanWebpackPlugin,
      WasmPackPlugin \<lparr> crateDirectory = path_resolve cwd [dirname, ''..''],
                       outName = ''ruffle'',
                       forceMode = mode cfg \<rparr>]"
  using assms by (elim module_exports_returns) simp

theorem plugins_clean_then_wasm_pack_witness:
  "\<exists>cfg. fst (module_exports ''/ruffle/web/extension'' ''/tmp'' JUndefined
             (JObject [(''mode'', JString ''development'')]) []) = Inr cfg \<and>
     mode cfg = JString ''development'' \<and>
     plugins cfg =
       [CleanWebpackPlugin,
        WasmPackPlugin \<lparr> crateDirectory = ''/ruffle/web'',
                         outName = ''ruffle'',
                         forceMode = JString ''development'' \<rparr>]"
proof -
  obtain cfg where r: "fst (module_exports ''/ruffle/web/extension'' ''/tmp'' JUndefined
      (JObject [(''mode'', JString ''development'')]) []) = Inr cfg"
    by (simp add: development_run)
  have m: "mode cfg = JString ''development''"
    using r by (auto simp: development_run)
  have d: "path_resolve ''/tmp'' [''/ruffle/web/extension'', ''..''] = ''/ruffle/web''"
    by (simp add: path_resolve_def normalizeString_def normalize_step_def)
  show ?thesis
    using plugins_clean_then_wasm_pack [OF r] r m d by simp
qed

subsection \<open>The entry points and the output descriptor\<close>

text \<open>
  Node.js gives a module an absolute \<^verbatim>\<open>__dirname\<close>; the statements about paths are made
  under that assumption.

  C4. The entry map of a returned configuration has exactly the two bundles
  \<^verbatim>\<open>ruffle\<close> and \<^verbatim>\<open>popup\<close>; their paths are absolute, end with
  \<^verbatim>\<open>/js/index.js\<close> and \<^verbatim>\<open>/js/popup.js\<close>, and are the same whatever the working
  directory of the process is.
\<close>

theorem entry_ruffle_and_popup:
  assumes "is_absolute dirname"
    and "fst (module_exports dirname cwd env argv console) = Inr cfg"
  shows "\<exists>p q. entry cfg = [(''ruffle'', p), (''popup'', q)] \<and>
      is_absolute p \<and> suffix ''/js/index.js'' p \<and>
      is_absolute q \<and> suffix ''/js/popup.js'' q \<and>
      (\<forall>cwd'. path_resolve cwd' [dirname, ''js/index.js''] = p \<and>
             path_resolve cwd' [dirname, ''js/popup.js''] = q)"
proof -
  let ?p = "path_resolve cwd [dirname, ''js/index.js'']"
  let ?q = "path_resolve cwd [dirname, ''js/popup.js'']"
  have e: "entry cfg = [(''ruffle'', ?p), (''popup'', ?q)]"
    using assms(2) by (elim module_exports_returns) simp
  have dir: "is_absolute (path_resolve cwd [dirname])"
    using assms(1) by (rule path_resolve_dir_absolute)
  have p: "is_absolute ?p \<and> suffix ''/js/index.js'' ?p"
    using dir unfolding resolve_index_js [OF assms(1), of cwd cwd]
    by (cases "path_resolve cwd [dirname]") (simp_all add: suffix_def)
  have q: "is_absolute ?q \<and> suffix ''/js/popup.js'' ?q"
    using dir unfolding resolve_popup_js [OF assms(1), of cwd cwd]
    by (cases "path_resolve cwd [dirname]") (simp_all add: suffix_def)
  have "\<forall>cwd'. path_resolve cwd' [dirname, ''js/index.js''] = ?p \<and>
      path_resolve cwd' [dirname, ''js/popup.js''] = ?q"
    using path_resolve_cwd_irrelevant [OF assms(1)] by blast
  with e p q show ?thesis by blast
qed

theorem entry_ruffle_and_popup_witness:
  "is_absolute ''/srv/checkout/web/extension/'' \<and>
   (\<exists>cfg. fst (module_exports ''/srv/checkout/web/extension/'' ''/home/user'' JNull
              (JObject []) []) = Inr cfg \<and>
      entry cfg = [(''ruffle'', ''/srv/checkout/web/extension/js/index.js''),
                   (''popup'', ''/srv/checkout/web/extension/js/popup.js'')])"
proof -
  have a: "is_absolute ''/srv/checkout/web/extension/''"
    by simp
  obtain cfg where r: "fst (module_exports ''/srv/checkout/web/extension/'' ''/home/user'' JNull
      (JObject []) []) = Inr cfg"
    by (simp add: module_exports_def select_mode_def building_message_def)
  from entry_ruffle_and_popup [OF a r] obtain p q
    where e: "entry cfg = [(''ruffle'', p), (''popup'', q)]"
      and pq: "path_resolve ''/'' [''/srv/checkout/web/extension/'', ''js/index.js''] = p"
        "path_resolve ''/'' [''/srv/checkout/web/extension/'', ''js/popup.js''] = q"
    by blast
  have "p = ''/srv/checkout/web/extension/js/index.js''"
    using pq(1) by (simp add: path_resolve_def normalizeString_def normalize_step_def)
  moreover have "q = ''/srv/checkout/web/extension/js/popup.js''"
    using pq(2) by (simp add: path_resolve_def normalizeString_def normalize_step_def)
  ultimately show ?thesis
    using a r e by simp
qed

text \<open>
  C5. The output descriptor is the same for every input: any two invocations, whatever
  their \<^verbatim>\<open>env\<close>, \<^verbatim>\<open>argv\<close>, working directory and console, return the same one.
  Its path is \<^verbatim>\<open>build/dist\<close> under the (normalised) directory of the configuration
  file, its filename pattern \<^verbatim>\<open>[name].js\<close>, its chunk filename
  \<^verbatim>\<open>core.ruffle.js\<close> and its \<^verbatim>\<open>jsonpFunction\<close> \<^verbatim>\<open>RufflePlayerExtensionLoader\<close>.
\<close>

theorem output_is_constant:
  assumes "is_absolute dirname"
    and "fst (module_exports dirname cwd env argv console) = Inr cfg"
    and "fst (module_exports dirname cwd' env' argv' console') = Inr cfg'"
  shows "output_desc cfg' = output_desc cfg \<and>
     output_desc cfg =
       \<lparr> path = (if path_resolve cwd [dirname] = ''/'' then ''/build/dist''
                 else path_resolve cwd [dirname] @ ''/build/dist''),
         filename = ''[name].js'',
         chunkFilename = ''core.ruffle.js'',
         jsonpFunction = ''RufflePlayerExtensionLoader'' \<rparr>"
proof -
  have 1: "output_desc cfg =
       \<lparr> path = path_resolve cwd [dirname, ''build/dist''],
         filename = ''[name].js'',
         chunkFilename = ''core.ruffle.js'',
         jsonpFunction = ''RufflePlayerExtensionLoader'' \<rparr>"
    using assms(2) by (elim module_exports_returns) simp
  have 2: "output_desc cfg' =
       \<lparr> path = path_resolve cwd' [dirname, ''build/dist''],
         filename = ''[name].js'',
         chunkFilename = ''core.ruffle.js'',
         jsonpFunction = ''RufflePlayerExtensionLoader'' \<rparr>"
    using assms(3) by (elim module_exports_returns) simp
  show ?thesis
    unfolding 1 2
    using resolve_build_dist [OF assms(1), of cwd cwd]
      resolve_build_dist [OF assms(1), of cwd' cwd]
    by simp
qed

theorem output_is_constant_witness:
  "is_absolute ''/ruffle/web/extension'' \<and>
   (\<exists>cfg cfg'.
      fst (module_exports ''/ruffle/web/extension'' ''/tmp'' JUndefined
             (JObject [(''mode'', JString ''development'')]) []) = Inr cfg \<and>
      fst (module_exports ''/ruffle/web/extension'' ''/var/ci''
             (JObject [(''production'', JBoolean True)]) JUndefined [''earlier'']) = Inr cfg' \<and>
      mode cfg \<noteq> mode cfg' \<and>
      output_desc cfg' = output_desc cfg \<and>
      output_desc cfg =
        \<lparr> path = ''/ruffle/web/extension/build/dist'',
          filename = ''[name].js'',
          chunkFilename = ''core.ruffle.js'',
          jsonpFunction = ''RufflePlayerExtensionLoader'' \<rparr>)"
proof -
  have a: "is_absolute ''/ruffle/web/extension''"
    by simp
  obtain cfg where r: "fst (module_exports ''/ruffle/web/extension'' ''/tmp'' JUndefined
      (JObject [(''mode'', JString ''development'')]) []) = Inr cfg"
    by (simp add: development_run)
  obtain cfg' where r': "fst (module_exports ''/ruffle/web/extension'' ''/var/ci''
      (JObject [(''production'', JBoolean True)]) JUndefined [''earlier'']) = Inr cfg'"
    by (simp add: module_exports_def select_mode_def building_message_def)
  have m: "mode cfg = JString ''development''"
    using r by (auto simp: development_run)
  have m': "mode cfg' = JString ''production''"
    using r' by (auto simp: module_exports_def select_mode_def building_message_def)
  have d: "path_resolve ''/tmp'' [''/ruffle/web/extension''] = ''/ruffle/web/extension''"
    by (simp add: path_resolve_def normalizeString_def normalize_step_def)
  show ?thesis
    using output_is_constant [OF a r r'] a r r' m m' d by simp
qed

subsection \<open>The documented example\<close>

text \<open>
  C6. With \<^verbatim>\<open>argv = { mode: "development" }\<close> the function returns a configuration
  whose \<open>mode\<close> is \<^verbatim>\<open>"development"\<close>, whose entry map is \<^verbatim>\<open>ruffle\<close> and
  \<^verbatim>\<open>popup\<close> with absolute paths ending in \<^verbatim>\<open>/js/index.js\<close> and
  \<^verbatim>\<open>/js/popup.js\<close>, and whose second plugin has \<^verbatim>\<open>forceMode\<close>
  \<^verbatim>\<open>"development"\<close>.
\<close>

theorem development_end_to_end:
  assumes "is_absolute dirname"
  shows "\<exists>cfg p q opts.
      fst (module_exports dirname cwd env (JObject [(''mode'', JString ''development'')])
             console) = Inr cfg \<and>
      mode cfg = JString ''development'' \<and>
      entry cfg = [(''ruffle'', p), (''popup'', q)] \<and>
      is_absolute p \<and> suffix ''/js/index.js'' p \<and>
      is_absolute q \<and> suffix ''/js/popup.js'' q \<and>
      plugins cfg = [CleanWebpackPlugin, WasmPackPlugin opts] \<and>
      forceMode opts = JString ''development''"
proof -
  let ?p = "path_resolve cwd [dirname, ''js/index.js'']"
  let ?q = "path_resolve cwd [dirname, ''js/popup.js'']"
  have dir: "is_absolute (path_resolve cwd [dirname])"
    using assms(1) by (rule path_resolve_dir_absolute)
  have p: "is_absolute ?p \<and> suffix ''/js/index.js'' ?p"
    using dir unfolding resolve_index_js [OF assms(1), of cwd cwd]
    by (cases "path_resolve cwd [dirname]") (simp_all add: suffix_def)
  have q: "is_absolute ?q \<and> suffix ''/js/popup.js'' ?q"
    using dir unfolding resolve_popup_js [OF assms(1), of cwd cwd]
    by (cases "path_resolve cwd [dirname]") (simp_all add: suffix_def)
  show ?thesis
    using p q by (simp add: module_exports_def select_mode_def building_message_def)
qed

theorem development_end_to_end_witness:
  "is_absolute ''/home/dev/ruffle/web/extension'' \<and>
   (\<exists>cfg p q opts.
      fst (module_exports ''/home/dev/ruffle/web/extension'' ''/home/dev'' (JObject [])
             (JObject [(''mode'', JString ''development'')]) []) = Inr cfg \<and>
      mode cfg = JString ''development'' \<and>
      entry cfg = [(''ruffle'', p), (''popup'', q)] \<and>
      is_absolute p \<and> suffix ''/js/index.js'' p \<and>
      is_absolute q \<and> suffix ''/js/popup.js'' q \<and>
      plugins cfg = [CleanWebpackPlugin, WasmPackPlugin opts] \<and>
      forceMode opts = JString ''development'')"
  using development_end_to_end [of "''/home/dev/ruffle/web/extension''" "''/home/dev''"
      "JObject []" "[]"]
  by simp

subsection \<open>Determinism and the ignored parameter\<close>

text \<open>
  C7. The result is determined by \<^verbatim>\<open>env\<close>, \<^verbatim>\<open>argv\<close> and the directory of the
  configuration file: two invocations on the same inputs have the same result (the same
  configuration, or the same error), whatever the working directory of the process and
  whatever was logged before.
\<close>

theorem result_determined_by_inputs:
  assumes "is_absolute dirname"
  shows "fst (module_exports dirname cwd env argv console) =
     fst (module_exports dirname cwd' env argv console')"
  using path_resolve_cwd_irrelevant [OF assms, of cwd _ cwd']
  by (simp add: module_exports_def split: sum.splits)

theorem result_determined_by_inputs_witness:
  "is_absolute ''/ruffle/web/extension'' \<and>
   fst (module_exports ''/ruffle/web/extension'' ''/tmp'' (JObject [(''ci'', JBoolean True)])
          (JObject [(''mode'', JString ''development'')]) []) =
   fst (module_exports ''/ruffle/web/extension'' ''/var/ci'' (JObject [(''ci'', JBoolean True)])
          (JObject [(''mode'', JString ''development'')]) [''Building production...''])"
  using result_determined_by_inputs [of "''/ruffle/web/extension''" "''/tmp''"
      "JObject [(''ci'', JBoolean True)]" "JObject [(''mode'', JString ''development'')]" "[]"
      "''/var/ci''" "[''Building production...'']"]
  by simp

text \<open>
  C10. The parameter \<^verbatim>\<open>env\<close> is ignored: invocations that differ only in it have the
  same result and leave the same console.
\<close>

theorem env_is_ignored:
  "module_exports dirname cwd e1 argv console = module_exports dirname cwd e2 argv console"
  by (simp add: module_exports_def)

subsection \<open>Failure\<close>

text \<open>
  C8, as the code has it. The function validates nothing: whenever \<^verbatim>\<open>argv\<close> is
  \<^verbatim>\<open>undefined\<close> or \<^verbatim>\<open>null\<close>, or \<^verbatim>\<open>argv.mode\<close> reads as a primitive other
  than a Symbol (a string, number, boolean or bigint, \<^verbatim>\<open>null\<close> or \<^verbatim>\<open>undefined\<close>,
  a known mode name or not), it raises no error and returns a configuration, whose \<open>mode\<close> is
  \<^verbatim>\<open>argv.mode\<close> itself when that is truthy and \<^verbatim>\<open>"production"\<close> otherwise. It is
  not total: when \<^verbatim>\<open>argv.mode\<close> is a Symbol, the template literal of line 13 raises a
  \<^verbatim>\<open>TypeError\<close>, and the function ends there, with nothing logged and nothing returned.
  Nothing is stated for an object as \<^verbatim>\<open>argv.mode\<close>.
\<close>

theorem returns_on_primitive_mode_raises_on_symbol:
  "(argv = JUndefined \<or> argv = JNull \<longrightarrow>
      (\<exists>cfg. fst (module_exports dirname cwd env argv console) = Inr cfg \<and>
         mode cfg = JString ''production'')) \<and>
   (\<forall>m. get_mode argv = Inr m \<and> (\<forall>d. m \<noteq> JSymbol d) \<and> (\<forall>ps. m \<noteq> JObject ps) \<longrightarrow>
      (\<exists>cfg. fst (module_exports dirname cwd env argv console) = Inr cfg \<and>
         mode cfg = (if to_boolean m then m else JString ''production''))) \<and>
   (\<forall>d. get_mode argv = Inr (JSymbol d) \<longrightarrow>
      module_exports dirname cwd env argv console = (Inl TypeError, console))"
proof (intro conjI allI impI)
  assume "argv = JUndefined \<or> argv = JNull"
  then have "select_mode argv = Inr (JString ''production'')"
    by (auto simp: select_mode_def)
  then show "\<exists>cfg. fst (module_exports dirname cwd env argv console) = Inr cfg \<and>
      mode cfg = JString ''production''"
    by (simp add: module_exports_def building_message_def)
next
  fix m
  assume a: "get_mode argv = Inr m \<and> (\<forall>d. m \<noteq> JSymbol d) \<and> (\<forall>ps. m \<noteq> JObject ps)"
  let ?sel = "if to_boolean m then m else JString ''production''"
  have sel: "select_mode argv = Inr ?sel"
    using a by (cases argv) (auto simp: select_mode_def)
  have "\<exists>s. to_string m = Inr s"
    using a by (cases m) simp_all
  then have "\<exists>s. to_string ?sel = Inr s"
    by simp
  then show "\<exists>cfg. fst (module_exports dirname cwd env argv console) = Inr cfg \<and>
      mode cfg = ?sel"
    using sel by (auto simp: module_exports_def building_message_def)
next
  fix d
  assume a: "get_mode argv = Inr (JSymbol d)"
  then have "to_boolean argv"
    by (cases argv) simp_all
  then have "select_mode argv = Inr (JSymbol d)"
    using a by (simp add: select_mode_def)
  then show "module_exports dirname cwd env argv console = (Inl TypeError, console)"
    by (simp add: module_exports_def building_message_def)
qed

theorem returns_on_primitive_mode_raises_on_symbol_witness:
  "(\<exists>cfg. fst (module_exports ''/ruffle/web/extension'' ''/tmp'' JUndefined JNull []) = Inr cfg \<and>
      mode cfg = JString ''production'') \<and>
   (\<exists>cfg. fst (module_exports ''/ruffle/web/extension'' ''/tmp'' JUndefined
        (JObject [(''mode'', JString ''no such mode!'')]) []) = Inr cfg \<and>
      mode cfg = JString ''no such mode!'') \<and>
   (\<exists>cfg. fst (module_exports ''/ruffle/web/extension'' ''/tmp'' JUndefined
        (JObject [(''mode'', JNumber ''42'')]) []) = Inr cfg \<and>
      mode cfg = JNumber ''42'') \<and>
   (\<exists>cfg. fst (module_exports ''/ruffle/web/extension'' ''/tmp'' JUndefined
        (JObject [(''mode'', JBoolean False)]) []) = Inr cfg \<and>
      mode cfg = JString ''production'') \<and>
   module_exports ''/ruffle/web/extension'' ''/tmp'' JUndefined
       (JObject [(''mode'', JSymbol ''dev'')]) [''npm run build''] =
     (Inl TypeError, [''npm run build''])"
  using
    returns_on_primitive_mode_raises_on_symbol [of JNull "''/ruffle/web/extension''" "''/tmp''"
      JUndefined "[]"]
    returns_on_primitive_mode_raises_on_symbol [of "JObject [(''mode'', JString ''no such mode!'')]"
      "''/ruffle/web/extension''" "''/tmp''" JUndefined "[]"]
    returns_on_primitive_mode_raises_on_symbol [of "JObject [(''mode'', JNumber ''42'')]"
      "''/ruffle/web/extension''" "''/tmp''" JUndefined "[]"]
    returns_on_primitive_mode_raises_on_symbol [of "JObject [(''mode'', JBoolean False)]"
      "''/ruffle/web/extension''" "''/tmp''" JUndefined "[]"]
    returns_on_primitive_mode_raises_on_symbol [of "JObject [(''mode'', JSymbol ''dev'')]"
      "''/ruffle/web/extension''" "''/tmp''" JUndefined "[''npm run build'']"]
  by simp

text \<open>The claim as stated fails: a Symbol as \<^verbatim>\<open>argv.mode\<close> raises.\<close>

theorem symbol_mode_raises:
  "fst (module_exports ''/ruffle/web/extension'' ''/tmp'' JUndefined
      (JObject [(''mode'', JSymbol ''development'')]) []) = Inl TypeError"
  by (simp add: module_exports_def select_mode_def building_message_def)

subsection \<open>The log message\<close>




end
